theory Spec2Isabelle
  imports Main
begin

section \<open>Category nodes\<close>

text \<open>
  The file \<^verbatim>\<open>sage/categories/modules.py\<close> declares the category \<^verbatim>\<open>Modules\<close> of all
  modules over a base ring, with its nested capability bundles
  (\<^verbatim>\<open>ElementMethods\<close>, \<^verbatim>\<open>HomCategory\<close>, \<^verbatim>\<open>EndCategory\<close>). A base ring is an opaque
  handle, the type variable \<open>'r\<close>; only its equality is ever used.

  A category node is a kind tag with its parameters. The kinds are the ones the file
  names (\<^verbatim>\<open>Modules\<close>, \<^verbatim>\<open>Bimodules\<close>, \<^verbatim>\<open>Algebras\<close>, the two nested Hom and End
  categories, which keep their \<^verbatim>\<open>base_category\<close>) and the ones the doctest of
  \<^verbatim>\<open>all_super_categories\<close> in the class docstring lists.
\<close>

datatype 'r category =
    Objects
  | Sets
  | CommutativeAdditiveSemigroups
  | CommutativeAdditiveMonoids
  | CommutativeAdditiveGroups
  | LeftModules 'r
  | RightModules 'r
  | Bimodules 'r 'r
  | Modules 'r
  | Algebras 'r
  | Modules_HomCategory "'r category"
  | Modules_EndCategory "'r category"

text \<open>
  The failures of the engine. \<open>AttributeError\<close> is what Python raises when a method
  is asked of a node that does not have it; the other two are the spec's names.
\<close>

datatype error = AttributeError | CyclicHierarchy | NoCommonStructure

text \<open>
  Modelled from the spec: \<^verbatim>\<open>Category_module.base_ring\<close> (imported from
  \<^verbatim>\<open>category_types\<close>) is not in the file. A node's parameter tuple holds its
  base-structure handles; a kind with exactly one ring parameter returns it, any other
  kind has no such method.
\<close>

fun base_ring :: "'r category \<Rightarrow> error + 'r" where
  "base_ring (Modules R) = Inr R"
| "base_ring (LeftModules R) = Inr R"
| "base_ring (RightModules R) = Inr R"
| "base_ring (Algebras R) = Inr R"
| "base_ring _ = Inl AttributeError"

text \<open>
  The attribute \<^verbatim>\<open>base_category\<close> of a Hom or End category node: the category it
  was derived from.
\<close>

fun base_category :: "'r category \<Rightarrow> error + 'r category" where
  "base_category (Modules_HomCategory C) = Inr C"
| "base_category (Modules_EndCategory C) = Inr C"
| "base_category _ = Inl AttributeError"

subsection \<open>Declared super-categories of \<^verbatim>\<open>Modules\<close>\<close>

text \<open>
  \<^verbatim>\<open>Modules.super_categories\<close>, the body under the decorator:
  \<^verbatim>\<open>R = self.base_ring(); return [Bimodules(R,R)]\<close>.
\<close>

definition Modules_super_categories :: "'r category \<Rightarrow> error + 'r category list" where
  "Modules_super_categories self =
     (case base_ring self of
        Inl e \<Rightarrow> Inl e
      | Inr R \<Rightarrow> Inr [Bimodules R R])"

subsection \<open>The extra-super-category hooks\<close>

text \<open>
  \<^verbatim>\<open>Modules.HomCategory.extra_super_categories\<close>:
  \<^verbatim>\<open>return [Modules(self.base_category.base_ring())]\<close>.
\<close>

definition Modules_HomCategory_extra_super_categories ::
  "'r category \<Rightarrow> error + 'r category list" where
  "Modules_HomCategory_extra_super_categories self =
     (case base_category self of
        Inl e \<Rightarrow> Inl e
      | Inr C \<Rightarrow>
          (case base_ring C of
             Inl e \<Rightarrow> Inl e
           | Inr R \<Rightarrow> Inr [Modules R]))"

text \<open>
  \<^verbatim>\<open>Modules.EndCategory.extra_super_categories\<close>:
  \<^verbatim>\<open>return [Algebras(self.base_category.base_ring())]\<close>. The class extends the
  nested \<^verbatim>\<open>HomCategory\<close> and overrides its hook without calling it.
\<close>

definition Modules_EndCategory_extra_super_categories ::
  "'r category \<Rightarrow> error + 'r category list" where
  "Modules_EndCategory_extra_super_categories self =
     (case base_category self of
        Inl e \<Rightarrow> Inl e
      | Inr C \<Rightarrow>
          (case base_ring C of
             Inl e \<Rightarrow> Inl e
           | Inr R \<Rightarrow> Inr [Algebras R]))"

text \<open>
  The hook of a node kind, found by its kind tag: present on the Hom and End variants,
  absent on the plain kinds.
\<close>

fun extra_super_categories_hook ::
  "'r category \<Rightarrow> ('r category \<Rightarrow> error + 'r category list) option" where
  "extra_super_categories_hook (Modules_HomCategory C) =
     Some Modules_HomCategory_extra_super_categories"
| "extra_super_categories_hook (Modules_EndCategory C) =
     Some Modules_EndCategory_extra_super_categories"
| "extra_super_categories_hook _ = None"

text \<open>
  Modelled from the spec: the resolver's \<^verbatim>\<open>direct_super_categories\<close> is not in the
  file (the base class \<^verbatim>\<open>HomCategory\<close> that calls the hook is imported). It looks up
  the declared super-category function of the node's kind, applies it, and, if the kind
  defines an extra-super-category hook, appends the hook's contribution after the
  declared ones. The table \<open>declared\<close> of declared functions is a parameter.
\<close>

definition direct_super_categories ::
  "('r category \<Rightarrow> error + 'r category list) \<Rightarrow> 'r category \<Rightarrow> error + 'r category list" where
  "direct_super_categories declared node =
     (case declared node of
        Inl e \<Rightarrow> Inl e
      | Inr ds \<Rightarrow>
          (case extra_super_categories_hook node of
             None \<Rightarrow> Inr ds
           | Some hook \<Rightarrow>
               (case hook node of
                  Inl e \<Rightarrow> Inl e
                | Inr es \<Rightarrow> Inr (ds @ es))))"

subsection \<open>Transitive closure\<close>

text \<open>
  Modelled from the spec: the declared super-category functions of the kinds other than
  \<^verbatim>\<open>Modules\<close> are not in the file. The chain below is the one of the end-to-end
  example (bimodules, left and right modules, commutative additive groups, down to the
  root \<^verbatim>\<open>Objects\<close>), with the nodes the doctest of \<^verbatim>\<open>all_super_categories\<close> in the
  docstring of \<^verbatim>\<open>Modules\<close> prints. The \<^verbatim>\<open>Modules\<close> row is the function of the file.
  The kinds the example does not reach are left to the parameter \<open>other\<close>.
\<close>

fun super_categories ::
  "('r category \<Rightarrow> error + 'r category list) \<Rightarrow> 'r category \<Rightarrow> error + 'r category list" where
  "super_categories other (Modules R) = Modules_super_categories (Modules R)"
| "super_categories other (Bimodules R S) = Inr [LeftModules R, RightModules S]"
| "super_categories other (LeftModules R) = Inr [CommutativeAdditiveGroups]"
| "super_categories other (RightModules R) = Inr [CommutativeAdditiveGroups]"
| "super_categories other CommutativeAdditiveGroups = Inr [CommutativeAdditiveMonoids]"
| "super_categories other CommutativeAdditiveMonoids = Inr [CommutativeAdditiveSemigroups]"
| "super_categories other CommutativeAdditiveSemigroups = Inr [Sets]"
| "super_categories other Sets = Inr [Objects]"
| "super_categories other Objects = Inr []"
| "super_categories other C = other C"

text \<open>
  Deduplication by identity, the first occurrence winning: \<open>seen\<close> holds the nodes
  already emitted.
\<close>

fun dedup :: "'a list \<Rightarrow> 'a list \<Rightarrow> 'a list" where
  "dedup seen [] = []"
| "dedup seen (x # xs) =
     (if x \<in> set seen then dedup seen xs else x # dedup (x # seen) xs)"

text \<open>
  Modelled from the spec: \<^verbatim>\<open>transitive_closure\<close> (\<^verbatim>\<open>all_super_categories\<close> in the
  doctest) is not in the file. The closure of a node is the node itself, then its direct
  super-categories in their order, then recursively their closures, deduplicated on
  first occurrence. A node reached while it is on the active recursion path fails with
  \<open>CyclicHierarchy\<close>; a failure of a super-category function is passed on. The walk is
  given fuel, the depth it may descend: \<open>None\<close> is a walk that did not return.
\<close>

fun closure_walk ::
    "nat \<Rightarrow> ('n \<Rightarrow> error + 'n list) \<Rightarrow> 'n list \<Rightarrow> 'n \<Rightarrow> (error + 'n list) option"
  and closure_walk_all ::
    "nat \<Rightarrow> ('n \<Rightarrow> error + 'n list) \<Rightarrow> 'n list \<Rightarrow> 'n list \<Rightarrow> (error + 'n list) option"
where
  "closure_walk 0 direct path node = None"
| "closure_walk (Suc fuel) direct path node =
     (if node \<in> set path then Some (Inl CyclicHierarchy)
      else
        (case direct node of
           Inl e \<Rightarrow> Some (Inl e)
         | Inr ds \<Rightarrow>
             (case closure_walk_all fuel direct (node # path) ds of
                None \<Rightarrow> None
              | Some (Inl e) \<Rightarrow> Some (Inl e)
              | Some (Inr cs) \<Rightarrow> Some (Inr (dedup [] (node # ds @ cs))))))"
| "closure_walk_all fuel direct path [] = Some (Inr [])"
| "closure_walk_all fuel direct path (d # ds) =
     (case closure_walk fuel direct path d of
        None \<Rightarrow> None
      | Some (Inl e) \<Rightarrow> Some (Inl e)
      | Some (Inr xs) \<Rightarrow>
          (case closure_walk_all fuel direct path ds of
             None \<Rightarrow> None
           | Some (Inl e) \<Rightarrow> Some (Inl e)
           | Some (Inr ys) \<Rightarrow> Some (Inr (xs @ ys))))"

definition transitive_closure ::
  "nat \<Rightarrow> ('r category \<Rightarrow> error + 'r category list) \<Rightarrow> 'r category \<Rightarrow>
     (error + 'r category list) option" where
  "transitive_closure fuel declared node =
     closure_walk fuel (direct_super_categories declared) [] node"

section \<open>Memoization of the declared super-categories\<close>







section \<open>Element multiplication\<close>

text \<open>
  The operation symbol handed to the resolver: \<^verbatim>\<open>operator.mul\<close>, told apart from the
  other operations of Python's \<^verbatim>\<open>operator\<close> module.
\<close>

datatype operator = operator_mul | operator_add

text \<open>
  Modelled from the spec: the coercion model that \<^verbatim>\<open>get_coercion_model()\<close> returns
  (imported from \<^verbatim>\<open>sage.structure.element\<close>) is not in the file. It is a black box
  with the single entry point \<^verbatim>\<open>bin_op(left, right, op)\<close>; its resolution algorithm
  \<open>resolve\<close> is a parameter, which returns the result or fails, with
  \<open>NoCommonStructure\<close> when the operands share no structure. The field \<open>calls\<close>
  records the invocations of the entry point, the latest last.
\<close>

record 'e coercion_model =
  resolve :: "'e \<Rightarrow> 'e \<Rightarrow> operator \<Rightarrow> error + 'e"
  calls :: "('e \<times> 'e \<times> operator) list"

definition bin_op ::
  "'e coercion_model \<Rightarrow> 'e \<Rightarrow> 'e \<Rightarrow> operator \<Rightarrow> (error + 'e) \<times> 'e coercion_model" where
  "bin_op cm x y op =
     (resolve cm x y op, cm\<lparr>calls := calls cm @ [(x, y, op)]\<rparr>)"

text \<open>
  \<^verbatim>\<open>Modules.ElementMethods.__mul__(left, right)\<close>:
  \<^verbatim>\<open>return get_coercion_model().bin_op(left, right, operator.mul)\<close>.
\<close>

definition Modules_ElementMethods_mul ::
  "'e coercion_model \<Rightarrow> 'e \<Rightarrow> 'e \<Rightarrow> (error + 'e) \<times> 'e coercion_model" where
  "Modules_ElementMethods_mul cm left right = bin_op cm left right operator_mul"

text \<open>
  \<^verbatim>\<open>Modules.ElementMethods.__rmul__(right, left)\<close>, with the same body. The receiver
  \<^verbatim>\<open>self\<close> is the first parameter, named \<^verbatim>\<open>right\<close>: Python evaluates \<^verbatim>\<open>y * x\<close>
  as \<^verbatim>\<open>x.__rmul__(y)\<close> when \<^verbatim>\<open>y\<close> does not handle the product itself.
\<close>

definition Modules_ElementMethods_rmul ::
  "'e coercion_model \<Rightarrow> 'e \<Rightarrow> 'e \<Rightarrow> (error + 'e) \<times> 'e coercion_model" where
  "Modules_ElementMethods_rmul cm right left = bin_op cm left right operator_mul"

section \<open>Morphism spaces\<close>

text \<open>
  A parent is a module that elements live in; of a parent the file uses its neutral
  element only (\<^verbatim>\<open>self.codomain().zero()\<close>), which is a parameter here.
\<close>

record 'e parent =
  parent_zero :: 'e

text \<open>
  A morphism object: where it goes from and to, and the function it applies. A
  morphism space is an instance with its domain and codomain and the slot in which
  \<^verbatim>\<open>cached_method\<close> keeps the result of \<^verbatim>\<open>zero\<close> for this instance, once computed:
  a reference to a morphism object. The heap holds the morphism objects by reference.
\<close>

record ('a, 'b) morphism =
  morphism_domain :: "'a parent"
  morphism_codomain :: "'b parent"
  morphism_function :: "'a \<Rightarrow> 'b"

record ('a, 'b) homset =
  domain :: "'a parent"
  codomain :: "'b parent"
  zero_cache :: "nat option"

record ('a, 'b) heap =
  objects :: "nat \<rightharpoonup> ('a, 'b) morphism"
  next_ref :: nat

text \<open>
  Modelled from the spec: calling a morphism space on a function (\<^verbatim>\<open>self(f)\<close>,
  the \<^verbatim>\<open>__call__\<close> of the Hom-set class) is not in the file. It builds a new morphism
  object of the space that applies the function, as the doctest of \<^verbatim>\<open>zero\<close> shows
  (a generic morphism from the domain to the codomain), and returns its reference.
\<close>

definition homset_call ::
  "('a, 'b) homset \<Rightarrow> ('a \<Rightarrow> 'b) \<Rightarrow> ('a, 'b) heap \<Rightarrow> nat \<times> ('a, 'b) heap" where
  "homset_call self f h =
     (next_ref h,
      h\<lparr>objects := (objects h)(next_ref h \<mapsto>
             \<lparr>morphism_domain = domain self, morphism_codomain = codomain self,
              morphism_function = f\<rparr>),
        next_ref := Suc (next_ref h)\<rparr>)"

text \<open>
  Applying the morphism object behind a reference to an element (\<^verbatim>\<open>f(x)\<close>);
  \<open>None\<close> when the heap holds no object at the reference.
\<close>

definition morphism_apply :: "('a, 'b) heap \<Rightarrow> nat \<Rightarrow> 'a \<Rightarrow> 'b option" where
  "morphism_apply h r x =
     (case objects h r of
        None \<Rightarrow> None
      | Some m \<Rightarrow> Some (morphism_function m x))"

text \<open>
  \<^verbatim>\<open>Modules.HomCategory.ParentMethods.zero\<close>, under its decorator \<^verbatim>\<open>@cached_method\<close>:
  the body \<^verbatim>\<open>return self(lambda x: self.codomain().zero())\<close> runs when the slot of the
  instance is empty, and its result is kept in the slot. The call returns the
  reference, the instance and the heap as it leaves them.
\<close>

definition Modules_HomCategory_zero ::
  "('a, 'b) homset \<Rightarrow> ('a, 'b) heap \<Rightarrow> nat \<times> ('a, 'b) homset \<times> ('a, 'b) heap" where
  "Modules_HomCategory_zero self h =
     (case zero_cache self of
        Some r \<Rightarrow> (r, self, h)
      | None \<Rightarrow>
          (case homset_call self (\<lambda>x. parent_zero (codomain self)) h of
             (r, h') \<Rightarrow> (r, self\<lparr>zero_cache := Some r\<rparr>, h')))"


text \<open>
  The slot of an instance is sound in a heap when it is empty or refers to the zero
  morphism of the space: what a new instance and every instance after a call satisfy.
\<close>

definition zero_cache_sound :: "('a, 'b) homset \<Rightarrow> ('a, 'b) heap \<Rightarrow> bool" where
  "zero_cache_sound self h =
     (case zero_cache self of
        None \<Rightarrow> True
      | Some r \<Rightarrow>
          objects h r =
            Some \<lparr>morphism_domain = domain self, morphism_codomain = codomain self,
                  morphism_function = (\<lambda>x. parent_zero (codomain self))\<rparr>)"

section \<open>Properties\<close>

subsection \<open>Declared super-categories and the hooks\<close>

text \<open>
  C1. For every base ring \<open>R\<close>, the declared direct super-categories of the node
  \<open>Modules R\<close> are the one-element sequence \<open>[Bimodules R R]\<close>: both parameters of the
  bimodule node are the base ring of the node itself, and the call does not fail.
\<close>

theorem Modules_super_categories_Bimodules:
  "base_ring (Modules R) = Inr R \<and>
   Modules_super_categories (Modules R) = Inr [Bimodules R R]"
  by (simp add: Modules_super_categories_def)

theorem Modules_super_categories_Bimodules_witness:
  "base_ring (Modules ''ZZ'') = Inr ''ZZ'' \<and>
   Modules_super_categories (Modules ''ZZ'') = Inr [Bimodules ''ZZ'' ''ZZ'']"
  by (rule Modules_super_categories_Bimodules)

text \<open>
  C2. For every base ring \<open>R\<close>, the extra-super-category hook of the Hom-category node
  derived from \<open>Modules R\<close> contributes a node equal to \<open>Modules R\<close> itself. So the
  direct super-categories of that node, whatever sequence \<open>ds\<close> its declared
  super-category function returns, are \<open>ds\<close> followed by \<open>Modules R\<close>: the node is
  among them although no declared function states it.
\<close>

theorem HomCategory_extra_super_categories_injected:
  assumes "declared (Modules_HomCategory (Modules R)) = Inr ds"
  shows "Modules_HomCategory_extra_super_categories (Modules_HomCategory (Modules R)) =
           Inr [Modules R] \<and>
         direct_super_categories declared (Modules_HomCategory (Modules R)) =
           Inr (ds @ [Modules R])"
  using assms
  by (simp add: Modules_HomCategory_extra_super_categories_def direct_super_categories_def)

theorem HomCategory_extra_super_categories_injected_witness:
  "super_categories (\<lambda>C. Inr []) (Modules_HomCategory (Modules ''ZZ'')) = Inr [] \<and>
   Modules_HomCategory_extra_super_categories (Modules_HomCategory (Modules ''ZZ'')) =
     Inr [Modules ''ZZ''] \<and>
   direct_super_categories (super_categories (\<lambda>C. Inr []))
     (Modules_HomCategory (Modules ''ZZ'')) = Inr [Modules ''ZZ'']"
  using HomCategory_extra_super_categories_injected
    [of "super_categories (\<lambda>C. Inr [])" "''ZZ''" "[]"]
  by simp

text \<open>
  C10. For every base ring \<open>R\<close>, the extra-super-category hook of the
  endomorphism-space variant of \<open>Modules R\<close> contributes the single node \<open>Algebras R\<close>.
\<close>

theorem EndCategory_extra_super_categories_Algebras:
  "Modules_EndCategory_extra_super_categories (Modules_EndCategory (Modules R)) =
     Inr [Algebras R]"
  by (simp add: Modules_EndCategory_extra_super_categories_def)

theorem EndCategory_extra_super_categories_Algebras_witness:
  "Modules_EndCategory_extra_super_categories (Modules_EndCategory (Modules ''ZZ'')) =
     Inr [Algebras ''ZZ'']"
  by (rule EndCategory_extra_super_categories_Algebras)

subsection \<open>The transitive closure of \<^verbatim>\<open>Modules\<close>\<close>

text \<open>A walk that returned returns the same with more fuel.\<close>

lemma closure_walk_more_fuel:
  "closure_walk k d p n = Some r \<Longrightarrow> closure_walk (k + j) d p n = Some r"
  "closure_walk_all k d p ns = Some r \<Longrightarrow> closure_walk_all (k + j) d p ns = Some r"
proof (induction k d p n and k d p ns arbitrary: r and r
    rule: closure_walk_closure_walk_all.induct)
  case (1 direct path node)
  then show ?case by simp
next
  case (2 fuel direct path node)
  then show ?case
    by (auto split: if_splits sum.splits option.splits)
next
  case (3 fuel direct path)
  then show ?case by simp
next
  case (4 fuel direct path d ds)
  then show ?case
    by (auto split: if_splits sum.splits option.splits)
qed

lemma dedup_set: "set (dedup seen xs) = set xs - set seen"
  by (induction seen xs rule: dedup.induct) auto

lemma dedup_distinct: "distinct (dedup seen xs)"
  by (induction seen xs rule: dedup.induct) (auto simp: dedup_set)

text \<open>Every closure the walk returns starts with its node and has no duplicates.\<close>

lemma closure_walk_distinct:
  assumes "closure_walk k d p n = Some (Inr cs)"
  shows "distinct cs \<and> hd cs = n"
proof (cases k)
  case 0
  with assms show ?thesis by simp
next
  case (Suc fuel)
  with assms obtain ds ys where "cs = dedup [] (n # ds @ ys)"
    by (auto split: if_splits sum.splits option.splits)
  then show ?thesis
    by (simp add: dedup_distinct dedup_set)
qed

text \<open>
  C6. For every base ring \<open>R\<close>, the transitive closure of \<open>Modules R\<close> returns, with
  fuel 8 or more and without a \<open>CyclicHierarchy\<close> failure, the sequence that lists
  \<open>Modules R\<close> first, then \<open>Bimodules R R\<close>, then the left modules and the right
  modules over \<open>R\<close>, then the commutative additive groups, monoids and semigroups, the
  sets, and last the root \<open>Objects\<close>, which has no super-category. The sequence has no
  duplicates.
\<close>

theorem Modules_transitive_closure:
  "\<exists>cs. transitive_closure (8 + k) (super_categories other) (Modules R) = Some (Inr cs) \<and>
     cs = [Modules R, Bimodules R R, LeftModules R, RightModules R,
           CommutativeAdditiveGroups, CommutativeAdditiveMonoids,
           CommutativeAdditiveSemigroups, Sets, Objects] \<and>
     distinct cs \<and>
     direct_super_categories (super_categories other) (last cs) = Inr []"
proof -
  let ?cs = "[Modules R, Bimodules R R, LeftModules R, RightModules R,
           CommutativeAdditiveGroups, CommutativeAdditiveMonoids,
           CommutativeAdditiveSemigroups, Sets, Objects]"
  have "closure_walk 8 (direct_super_categories (super_categories other)) [] (Modules R) =
          Some (Inr ?cs)"
    by (simp add: eval_nat_numeral direct_super_categories_def Modules_super_categories_def)
  then have run: "transitive_closure (8 + k) (super_categories other) (Modules R) = Some (Inr ?cs)"
    unfolding transitive_closure_def by (rule closure_walk_more_fuel)
  then have "distinct ?cs"
    unfolding transitive_closure_def by (blast dest: closure_walk_distinct)
  moreover have "direct_super_categories (super_categories other) (last ?cs) = Inr []"
    by (simp add: direct_super_categories_def)
  ultimately show ?thesis using run by blast
qed

theorem Modules_transitive_closure_witness:
  "transitive_closure 8 (super_categories (\<lambda>C. Inl AttributeError)) (Modules ''ZZ'') =
     Some (Inr [Modules ''ZZ'', Bimodules ''ZZ'' ''ZZ'', LeftModules ''ZZ'', RightModules ''ZZ'',
           CommutativeAdditiveGroups, CommutativeAdditiveMonoids,
           CommutativeAdditiveSemigroups, Sets, Objects])"
  using Modules_transitive_closure [of 0 "\<lambda>C. Inl AttributeError" "''ZZ''"]
  by simp

subsection \<open>Memoization of the declared super-categories\<close>












subsection \<open>Element multiplication\<close>

text \<open>
  C4. For every pair of operands, element multiplication delegates to the resolver: it
  invokes \<^verbatim>\<open>bin_op\<close> once, on the left operand, the right operand and the
  multiplication operation in this order, and returns the resolver's result unchanged;
  right multiplication, called on the right operand, returns the same result.
  It holds for operands of any type, so nothing of the partner is inspected.
\<close>

theorem ElementMethods_mul_delegates:
  "Modules_ElementMethods_mul cm left right = bin_op cm left right operator_mul \<and>
   fst (Modules_ElementMethods_mul cm left right) = resolve cm left right operator_mul \<and>
   calls (snd (Modules_ElementMethods_mul cm left right)) =
     calls cm @ [(left, right, operator_mul)] \<and>
   fst (Modules_ElementMethods_rmul cm right left) = resolve cm left right operator_mul"
  by (simp add: Modules_ElementMethods_mul_def Modules_ElementMethods_rmul_def bin_op_def)

theorem ElementMethods_mul_delegates_witness:
  "fst (Modules_ElementMethods_mul
     \<lparr>resolve = (\<lambda>x y op. if op = operator_mul then Inr (x * y) else Inr (x + y)), calls = []\<rparr>
     (3::int) 4) = Inr 12 \<and>
   calls (snd (Modules_ElementMethods_mul
     \<lparr>resolve = (\<lambda>x y op. if op = operator_mul then Inr (x * y) else Inr (x + y)), calls = []\<rparr>
     (3::int) 4)) = [(3, 4, operator_mul)]"
  using ElementMethods_mul_delegates [of
    "\<lparr>resolve = (\<lambda>x y op. if op = operator_mul then Inr (x * y) else Inr (x + y)), calls = []\<rparr>"
    "3::int" 4]
  by (simp add: bin_op_def)

text \<open>
  C5. For every pair of operands for which the resolver finds no common structure,
  element multiplication fails with \<open>NoCommonStructure\<close>, the resolver's failure as it
  is, after a single invocation of the resolver: it is not retried.
\<close>

theorem ElementMethods_mul_NoCommonStructure:
  assumes "resolve cm left right operator_mul = Inl NoCommonStructure"
  shows "Modules_ElementMethods_mul cm left right =
           (Inl NoCommonStructure, cm\<lparr>calls := calls cm @ [(left, right, operator_mul)]\<rparr>)"
  using assms by (simp add: Modules_ElementMethods_mul_def bin_op_def)

theorem ElementMethods_mul_NoCommonStructure_witness:
  "resolve \<lparr>resolve = (\<lambda>x y op. if x = y then Inr x else Inl NoCommonStructure), calls = []\<rparr>
     (1::int) 2 operator_mul = Inl NoCommonStructure \<and>
   fst (Modules_ElementMethods_mul
     \<lparr>resolve = (\<lambda>x y op. if x = y then Inr x else Inl NoCommonStructure), calls = []\<rparr>
     (1::int) 2) = Inl NoCommonStructure \<and>
   calls (snd (Modules_ElementMethods_mul
     \<lparr>resolve = (\<lambda>x y op. if x = y then Inr x else Inl NoCommonStructure), calls = []\<rparr>
     (1::int) 2)) = [(1, 2, operator_mul)]"
  using ElementMethods_mul_NoCommonStructure [of
    "\<lparr>resolve = (\<lambda>x y op. if x = y then Inr x else Inl NoCommonStructure), calls = []\<rparr>"
    "1::int" 2]
  by simp

text \<open>
  C9. Left and right multiplication are the same dispatch, which keeps the order of the
  operands: \<^verbatim>\<open>x * y\<close> through \<^verbatim>\<open>x.__mul__(y)\<close> invokes the resolver on \<open>x\<close>, then
  \<open>y\<close>, and \<^verbatim>\<open>y * x\<close> through \<^verbatim>\<open>x.__rmul__(y)\<close> invokes it on \<open>y\<close>, then \<open>x\<close>,
  the original left operand first, exactly as \<^verbatim>\<open>y.__mul__(x)\<close> would.
\<close>

theorem ElementMethods_rmul_keeps_order:
  "Modules_ElementMethods_mul cm x y = bin_op cm x y operator_mul \<and>
   Modules_ElementMethods_rmul cm x y = bin_op cm y x operator_mul \<and>
   Modules_ElementMethods_rmul cm x y = Modules_ElementMethods_mul cm y x \<and>
   calls (snd (Modules_ElementMethods_rmul cm x y)) = calls cm @ [(y, x, operator_mul)]"
  by (simp add: Modules_ElementMethods_mul_def Modules_ElementMethods_rmul_def bin_op_def)

theorem ElementMethods_rmul_keeps_order_witness:
  "fst (Modules_ElementMethods_rmul
     \<lparr>resolve = (\<lambda>x y op. Inr (x - y)), calls = []\<rparr> (3::int) 10) = Inr 7 \<and>
   calls (snd (Modules_ElementMethods_rmul
     \<lparr>resolve = (\<lambda>x y op. Inr (x - y)), calls = []\<rparr> (3::int) 10)) =
     [(10, 3, operator_mul)]"
  using ElementMethods_rmul_keeps_order [of
    "\<lparr>resolve = (\<lambda>x y op. Inr (x - y)), calls = []\<rparr>" "3::int" 10]
  by (simp add: bin_op_def)

subsection \<open>The zero morphism of a morphism space\<close>

text \<open>
  C3. For every morphism space, \<^verbatim>\<open>zero\<close> returns the morphism of the space that sends
  every element of the domain to the neutral element of the codomain: on an instance
  whose slot is sound, the reference it returns is to that morphism object, applying it
  to any element gives the neutral element of the codomain, and the slot is sound
  afterwards.
\<close>

theorem HomCategory_zero_sends_all_to_zero:
  assumes "zero_cache_sound self h"
  shows "case Modules_HomCategory_zero self h of
           (r, self', h') \<Rightarrow>
             objects h' r =
               Some \<lparr>morphism_domain = domain self, morphism_codomain = codomain self,
                     morphism_function = (\<lambda>x. parent_zero (codomain self))\<rparr> \<and>
             morphism_apply h' r x = Some (parent_zero (codomain self)) \<and>
             zero_cache_sound self' h'"
  using assms
  by (auto simp: Modules_HomCategory_zero_def zero_cache_sound_def homset_call_def
      morphism_apply_def split: option.splits)

theorem HomCategory_zero_sends_all_to_zero_witness:
  "zero_cache_sound
     \<lparr>domain = \<lparr>parent_zero = (0::int)\<rparr>, codomain = \<lparr>parent_zero = (0::int)\<rparr>, zero_cache = None\<rparr>
     \<lparr>objects = Map.empty, next_ref = 0\<rparr> \<and>
   (case Modules_HomCategory_zero
      \<lparr>domain = \<lparr>parent_zero = (0::int)\<rparr>, codomain = \<lparr>parent_zero = (0::int)\<rparr>, zero_cache = None\<rparr>
      \<lparr>objects = Map.empty, next_ref = 0\<rparr> of
      (r, self', h') \<Rightarrow> r = 0 \<and> morphism_apply h' r 7 = Some 0 \<and> zero_cache self' = Some 0)"
  using HomCategory_zero_sends_all_to_zero [of
     "\<lparr>domain = \<lparr>parent_zero = (0::int)\<rparr>, codomain = \<lparr>parent_zero = (0::int)\<rparr>, zero_cache = None\<rparr>"
     "\<lparr>objects = Map.empty, next_ref = 0\<rparr>" 7]
  by (simp add: zero_cache_sound_def Modules_HomCategory_zero_def homset_call_def)






end
